theory Spec2Isabelle
  imports Complex_Main "HOL-Library.Sublist"
begin

section \<open>Water quality dashboard: the generator, the year filter and the headline metrics\<close>

text \<open>
  The program is one Python script, \<^verbatim>\<open>Main.py\<close>. Its function
  \<^verbatim>\<open>generate_water_quality_data\<close> builds a monthly table of four synthetic
  water-quality parameters and a composite score; the rest of the script filters the table
  by a year range taken from a slider and labels the last row of the selection.

  Modelling decisions, all of them about library calls the script makes:
  \<^item> a pandas \<^verbatim>\<open>Timestamp\<close> is its calendar date (year, month, day);
  \<^item> a NumPy \<^verbatim>\<open>float64\<close> is a \<^typ>\<open>real\<close>: rounding is not modelled, and the
    normal variates are arbitrary reals (no NaN, no infinity);
  \<^item> the global NumPy random state is a stream of standard normal variates and a read
    position; which stream a seed selects (the Mersenne Twister and the polar method of
    the library) is a parameter \<open>G\<close> of the model: \<open>G k i\<close> is the \<open>i\<close>-th variate
    after seeding with \<open>k\<close>;
  \<^item> a NumPy array and a DataFrame column are lists, a DataFrame is the list of its rows;
  \<^item> the Streamlit range slider returns the pair its widget holds, and refuses a pair
    with an end outside [\<open>min_value\<close>, \<open>max_value\<close>].
\<close>

subsection \<open>Timestamps and the month-end date range\<close>

record timestamp =
  year :: int
  month :: int
  day :: int

definition is_leap_year :: "int \<Rightarrow> bool" where
  "is_leap_year y = (y mod 4 = 0 \<and> (y mod 100 \<noteq> 0 \<or> y mod 400 = 0))"

definition days_in_month :: "int \<Rightarrow> int \<Rightarrow> int" where
  "days_in_month y m =
     (if m = 2 then (if is_leap_year y then 29 else 28)
      else if m = 4 \<or> m = 6 \<or> m = 9 \<or> m = 11 then 30
      else 31)"

text \<open>Chronological order of two timestamps.\<close>

definition ts_le :: "timestamp \<Rightarrow> timestamp \<Rightarrow> bool" where
  "ts_le a b =
     (year a < year b \<or>
      (year a = year b \<and> (month a < month b \<or> (month a = month b \<and> day a \<le> day b))))"

text \<open>Months are counted from year 0: month number \<open>12 * y + (m - 1)\<close>.\<close>

definition month_no :: "timestamp \<Rightarrow> int" where
  "month_no t = 12 * year t + (month t - 1)"

definition month_end :: "int \<Rightarrow> timestamp" where
  "month_end k =
     \<lparr>year = k div 12, month = k mod 12 + 1, day = days_in_month (k div 12) (k mod 12 + 1)\<rparr>"

text \<open>
  \<^verbatim>\<open>pd.date_range(start, end, freq='M')\<close>: the month-end dates \<open>d\<close> with
  \<open>start \<le> d \<le> end\<close>, in increasing order. Every such date is the end of a month between
  the month of \<open>start\<close> and the month of \<open>end\<close>.
\<close>

definition date_range :: "timestamp \<Rightarrow> timestamp \<Rightarrow> timestamp list" where
  "date_range start end =
     filter (\<lambda>d. ts_le start d \<and> ts_le d end) (map month_end [month_no start .. month_no end])"

subsection \<open>The random state\<close>

record random_state =
  gauss_stream :: "nat \<Rightarrow> real"
  pos :: nat

text \<open>\<^verbatim>\<open>np.random.seed(k)\<close> replaces the global state, whatever it was.\<close>

definition seed :: "(nat \<Rightarrow> nat \<Rightarrow> real) \<Rightarrow> nat \<Rightarrow> random_state \<Rightarrow> random_state" where
  "seed G k st = \<lparr>gauss_stream = G k, pos = 0\<rparr>"

text \<open>
  \<^verbatim>\<open>np.random.normal(loc, scale, n)\<close> takes the next \<open>n\<close> variates of the stream, in
  order, and returns \<open>loc + scale * z\<close> for each.
\<close>

definition normal :: "real \<Rightarrow> real \<Rightarrow> nat \<Rightarrow> random_state \<Rightarrow> real list \<times> random_state" where
  "normal loc scale n st =
     (map (\<lambda>j. loc + scale * gauss_stream st (pos st + j)) [0..<n], st\<lparr>pos := pos st + n\<rparr>)"

subsection \<open>Array operations\<close>

definition arange :: "nat \<Rightarrow> real list" where
  "arange n = map real [0..<n]"

text \<open>\<^verbatim>\<open>np.clip(x, a_min, a_max)\<close> is \<open>minimum (maximum x a_min) a_max\<close>.\<close>

definition clip :: "real \<Rightarrow> real \<Rightarrow> real \<Rightarrow> real" where
  "clip x a_min a_max = min (max x a_min) a_max"

definition np_clip :: "real list \<Rightarrow> real \<Rightarrow> real \<Rightarrow> real list" where
  "np_clip xs a_min a_max = map (\<lambda>x. clip x a_min a_max) xs"

subsection \<open>The generator\<close>

text \<open>One row of the DataFrame; the fields are its columns.\<close>

record sample =
  Date :: timestamp
  pH :: real
  TDS :: real
  Turbidity :: real
  Dissolved_Oxygen :: real
  Quality_Score :: real

text \<open>
  The local variables of \<^verbatim>\<open>generate_water_quality_data\<close> when it returns. A scalar
  combined with an array acts on each element (\<open>map\<close>); two arrays of one length combine
  element by element (\<open>map2\<close>).
\<close>

record locals =
  dates :: "timestamp list"
  ph :: "real list"
  tds :: "real list"
  turbidity :: "real list"
  do :: "real list"
  ph_score :: "real list"
  tds_score :: "real list"
  turbidity_score :: "real list"
  do_score :: "real list"
  quality_score :: "real list"
  df :: "sample list"
  rng :: random_state

definition generate_locals :: "(nat \<Rightarrow> nat \<Rightarrow> real) \<Rightarrow> random_state \<Rightarrow> locals" where
  "generate_locals G st0 =
    (let dates = date_range \<lparr>year = 2000, month = 1, day = 1\<rparr> \<lparr>year = 2025, month = 11, day = 3\<rparr>;
         st1 = seed G 42 st0;
         n = length dates;
         (z1, st2) = normal 0 0.3 n st1;
         ph = map2 (+) (map ((+) 7.5) z1)
                (map ((*) 0.2) (map sin (map (\<lambda>x. x * 0.1) (arange n))));
         (z2, st3) = normal 0 50 n st2;
         tds = map2 (+) (map ((+) 250) z2)
                (map ((*) 30) (map sin (map (\<lambda>x. x * 0.15) (arange n))));
         tds = np_clip tds 150 600;
         (z3, st4) = normal 0 1 n st3;
         turbidity = map2 (+) (map ((+) 2) z3)
                (map ((*) 1.5) (map sin (map (\<lambda>x. x * 0.2) (arange n))));
         turbidity = np_clip turbidity 0.5 8;
         (z4, st5) = normal 0 0.8 n st4;
         do = map2 (-) (map ((+) 7) z4)
                (map ((*) 0.5) (map sin (map (\<lambda>x. x * 0.12) (arange n))));
         do = np_clip do 4 9;
         ph_score = map (\<lambda>x. 100 - x) (map (\<lambda>x. x * 20) (map abs (map (\<lambda>x. 7.5 - x) ph)));
         tds_score = np_clip (map (\<lambda>x. 100 - x) (map (\<lambda>x. x / 5) (map (\<lambda>x. x - 200) tds))) 0 100;
         turbidity_score = np_clip (map (\<lambda>x. 100 - x) (map (\<lambda>x. x * 15) turbidity)) 0 100;
         do_score = np_clip (map (\<lambda>x. x * 12) do) 0 100;
         quality_score =
           map (\<lambda>x. x / 4) (map2 (+) (map2 (+) (map2 (+) ph_score tds_score) turbidity_score) do_score);
         df = map (\<lambda>i. \<lparr>Date = dates ! i, pH = ph ! i, TDS = tds ! i, Turbidity = turbidity ! i,
                          Dissolved_Oxygen = do ! i, Quality_Score = quality_score ! i\<rparr>) [0..<n]
     in \<lparr>dates = dates, ph = ph, tds = tds, turbidity = turbidity, do = do,
         ph_score = ph_score, tds_score = tds_score, turbidity_score = turbidity_score,
         do_score = do_score, quality_score = quality_score, df = df, rng = st5\<rparr>)"

text \<open>The function returns the DataFrame and leaves the global random state advanced.\<close>

definition generate_water_quality_data ::
  "(nat \<Rightarrow> nat \<Rightarrow> real) \<Rightarrow> random_state \<Rightarrow> sample list \<times> random_state" where
  "generate_water_quality_data G st0 = (df (generate_locals G st0), rng (generate_locals G st0))"

text \<open>The Series: the DataFrame the script loads.\<close>

definition Series :: "(nat \<Rightarrow> nat \<Rightarrow> real) \<Rightarrow> random_state \<Rightarrow> sample list" where
  "Series G st0 = fst (generate_water_quality_data G st0)"

subsection \<open>The year filter and the latest reading\<close>

text \<open>
  \<^verbatim>\<open>mask = (df['Date'].dt.year >= year_range[0]) & (df['Date'].dt.year <= year_range[1])\<close>
  is a column of booleans, and \<^verbatim>\<open>df[mask]\<close> keeps the rows where it is true.
\<close>

definition mask :: "int \<times> int \<Rightarrow> sample list \<Rightarrow> bool list" where
  "mask year_range d =
     map2 (\<and>) (map (\<lambda>y. y \<ge> fst year_range) (map year (map Date d)))
              (map (\<lambda>y. y \<le> snd year_range) (map year (map Date d)))"

definition boolean_index :: "'a list \<Rightarrow> bool list \<Rightarrow> 'a list" where
  "boolean_index d m = map fst (filter snd (zip d m))"

definition filtered_df :: "int \<times> int \<Rightarrow> sample list \<Rightarrow> sample list" where
  "filtered_df year_range d = boolean_index d (mask year_range d)"




subsection \<open>The headline metrics\<close>

definition ph_delta :: "real \<Rightarrow> string" where
  "ph_delta p = (if 6.5 \<le> p \<and> p \<le> 8.5 then ''Optimal'' else ''Outside Range'')"



definition status :: "real \<Rightarrow> string" where
  "status quality = (if quality > 80 then ''Excellent'' else if quality > 60 then ''Good'' else ''Fair'')"


subsection \<open>The clamping the specification describes\<close>


subsection \<open>The slider\<close>

text \<open>
  \<^verbatim>\<open>st.sidebar.slider(label, min_value, max_value, value)\<close> with a pair as \<open>value\<close> is a
  range slider. The widget holds \<open>value\<close> until a pair is set for it (\<open>None\<close> below: nothing
  was set). Streamlit accepts a pair only when both ends lie in [\<open>min_value\<close>, \<open>max_value\<close>]
  and raises an exception otherwise; it does not compare the two ends with each other.
\<close>

datatype widget_error = StreamlitAPIException

definition slider :: "int \<Rightarrow> int \<Rightarrow> int \<times> int \<Rightarrow> (int \<times> int) option \<Rightarrow> widget_error + int \<times> int" where
  "slider min_value max_value value widget =
     (let v = (case widget of None \<Rightarrow> value | Some w \<Rightarrow> w)
      in if min_value \<le> fst v \<and> fst v \<le> max_value \<and> min_value \<le> snd v \<and> snd v \<le> max_value
         then Inr v
         else Inl StreamlitAPIException)"

text \<open>Lines 60 to 65 of the script: the only place \<open>year_range\<close> comes from.\<close>

definition year_range :: "(int \<times> int) option \<Rightarrow> widget_error + int \<times> int" where
  "year_range widget = slider 2000 2025 (2000, 2025) widget"


subsection \<open>Example inputs\<close>

text \<open>
  A stream whose variates are all 0 and a starting state, for the closed instances of the
  theorems below.
\<close>

definition no_noise :: "nat \<Rightarrow> nat \<Rightarrow> real" where
  "no_noise k i = 0"

definition initial_state :: random_state where
  "initial_state = \<lparr>gauss_stream = no_noise 0, pos = 0\<rparr>"

section \<open>Facts about the model\<close>

subsection \<open>The dates\<close>

lemma year_month_end: "year (month_end k) = k div 12"
  by (simp add: month_end_def)

lemma month_end_in_range:
  assumes "24000 \<le> k" "k \<le> 24309"
  shows "ts_le \<lparr>year = 2000, month = 1, day = 1\<rparr> (month_end k) \<and>
         ts_le (month_end k) \<lparr>year = 2025, month = 11, day = 3\<rparr>"
proof -
  have k: "k = 12 * (k div 12) + k mod 12" by simp
  have y: "2000 \<le> k div 12" "k div 12 \<le> 2025" using assms by linarith+
  have m: "0 \<le> k mod 12" "k mod 12 < 12" by simp_all
  have m': "k div 12 = 2025 \<Longrightarrow> k mod 12 \<le> 9" using assms k by linarith
  have d: "1 \<le> days_in_month (k div 12) (k mod 12 + 1)"
    by (simp add: days_in_month_def)
  show ?thesis
    using y m m' d unfolding ts_le_def month_end_def by (simp; linarith)
qed

lemma filter_map_upto_all:
  assumes "\<And>k. a \<le> k \<Longrightarrow> k \<le> b \<Longrightarrow> P (f k)"
  shows "filter P (map f [a..b]) = map f [a..b]"
proof -
  have "\<forall>x \<in> set (map f [a..b]). P x"
    using assms by (auto simp del: upto_rec_numeral)
  then show ?thesis by (simp only: filter_True)
qed

text \<open>
  The date range of the script: the ends of the months 2000-01 to 2025-10. The end of
  2025-11 is after the end date 2025-11-03 and is left out.
\<close>

lemma dates_eq:
  "date_range \<lparr>year = 2000, month = 1, day = 1\<rparr> \<lparr>year = 2025, month = 11, day = 3\<rparr>
     = map month_end [24000..24309]"
proof -
  let ?P = "\<lambda>d. ts_le \<lparr>year = 2000, month = 1, day = 1\<rparr> d \<and>
                ts_le d \<lparr>year = 2025, month = 11, day = 3\<rparr>"
  have split: "[24000..24310::int] = [24000..24309] @ [24310]"
    using upto_rec2 [of 24000 24310] by (simp del: upto_rec_numeral)
  have last: "\<not> ?P (month_end 24310)"
    by (simp add: ts_le_def month_end_def days_in_month_def)
  have keep: "filter ?P (map month_end [24000..24309]) = map month_end [24000..24309]"
    by (rule filter_map_upto_all) (rule month_end_in_range)
  have "date_range \<lparr>year = 2000, month = 1, day = 1\<rparr> \<lparr>year = 2025, month = 11, day = 3\<rparr>
          = filter ?P (map month_end [24000..24310])"
    by (simp add: date_range_def month_no_def del: upto_rec_numeral)
  also have "\<dots> = filter ?P (map month_end [24000..24309]) @ filter ?P [month_end 24310]"
    by (simp only: split map_append filter_append list.map)
  also have "\<dots> = map month_end [24000..24309]"
    using last keep by (simp del: upto_rec_numeral)
  finally show ?thesis .
qed

subsection \<open>The columns, one by one\<close>

lemma zip_map_same: "zip (map g xs) (map h xs) = map (\<lambda>x. (g x, h x)) xs"
  by (induction xs) simp_all

lemmas unfold_generate =
  generate_locals_def Let_def split_def dates_eq normal_def seed_def arange_def np_clip_def
  zip_map_same o_def

lemma locals_dates: "dates (generate_locals G st) = map month_end [24000..24309]"
  by (simp add: unfold_generate del: upto_rec_numeral upt_rec_numeral)

lemma locals_ph:
  "ph (generate_locals G st) =
     map (\<lambda>i. 7.5 + 0.3 * G 42 i + 0.2 * sin (real i * 0.1)) [0..<310]"
  by (simp add: unfold_generate del: upto_rec_numeral upt_rec_numeral)

lemma locals_tds:
  "tds (generate_locals G st) =
     map (\<lambda>i. clip (250 + 50 * G 42 (310 + i) + 30 * sin (real i * 0.15)) 150 600) [0..<310]"
  by (simp add: unfold_generate del: upto_rec_numeral upt_rec_numeral)

lemma locals_turbidity:
  "turbidity (generate_locals G st) =
     map (\<lambda>i. clip (2 + G 42 (620 + i) + 1.5 * sin (real i * 0.2)) 0.5 8) [0..<310]"
  by (simp add: unfold_generate del: upto_rec_numeral upt_rec_numeral)

lemma locals_do:
  "do (generate_locals G st) =
     map (\<lambda>i. clip (7 + 0.8 * G 42 (930 + i) - 0.5 * sin (real i * 0.12)) 4 9) [0..<310]"
  by (simp add: unfold_generate del: upto_rec_numeral upt_rec_numeral)

lemma locals_rng: "rng (generate_locals G st) = \<lparr>gauss_stream = G 42, pos = 1240\<rparr>"
  by (simp add: unfold_generate del: upto_rec_numeral upt_rec_numeral)

lemma locals_ph_score:
  "ph_score (generate_locals G st) =
     map (\<lambda>x. 100 - \<bar>7.5 - x\<bar> * 20) (ph (generate_locals G st))"
  by (simp add: unfold_generate del: upto_rec_numeral upt_rec_numeral)

lemma locals_tds_score:
  "tds_score (generate_locals G st) =
     map (\<lambda>x. clip (100 - (x - 200) / 5) 0 100) (tds (generate_locals G st))"
  by (simp add: unfold_generate del: upto_rec_numeral upt_rec_numeral)

lemma locals_turbidity_score:
  "turbidity_score (generate_locals G st) =
     map (\<lambda>x. clip (100 - x * 15) 0 100) (turbidity (generate_locals G st))"
  by (simp add: unfold_generate del: upto_rec_numeral upt_rec_numeral)

lemma locals_do_score:
  "do_score (generate_locals G st) =
     map (\<lambda>x. clip (x * 12) 0 100) (do (generate_locals G st))"
  by (simp add: unfold_generate del: upto_rec_numeral upt_rec_numeral)

lemma locals_quality_score:
  "quality_score (generate_locals G st) =
     map (\<lambda>i. (ph_score (generate_locals G st) ! i + tds_score (generate_locals G st) ! i
               + turbidity_score (generate_locals G st) ! i
               + do_score (generate_locals G st) ! i) / 4)
       [0..<310]"
  by (simp add: unfold_generate del: upto_rec_numeral upt_rec_numeral)

lemma locals_df:
  "df (generate_locals G st) =
     map (\<lambda>i. \<lparr>Date = dates (generate_locals G st) ! i, pH = ph (generate_locals G st) ! i,
                TDS = tds (generate_locals G st) ! i,
                Turbidity = turbidity (generate_locals G st) ! i,
                Dissolved_Oxygen = do (generate_locals G st) ! i,
                Quality_Score = quality_score (generate_locals G st) ! i\<rparr>) [0..<310]"
  by (simp add: unfold_generate del: upto_rec_numeral upt_rec_numeral)

subsection \<open>The rows of the Series\<close>

lemma Series_df: "Series G st = df (generate_locals G st)"
  by (simp add: Series_def generate_water_quality_data_def)

lemma Series_length: "length (Series G st) = 310"
  by (simp add: Series_df locals_df del: upt_rec_numeral)

lemma Series_nth_Date:
  "i < 310 \<Longrightarrow> Date (Series G st ! i) = month_end (24000 + int i)"
  by (simp add: Series_df locals_df locals_dates del: upt_rec_numeral upto_rec_numeral)

lemma Series_nth_pH:
  "i < 310 \<Longrightarrow> pH (Series G st ! i) = 7.5 + 0.3 * G 42 i + 0.2 * sin (real i * 0.1)"
  by (simp add: Series_df locals_df locals_ph del: upt_rec_numeral upto_rec_numeral)

lemma Series_nth_TDS:
  "i < 310 \<Longrightarrow> TDS (Series G st ! i) =
      clip (250 + 50 * G 42 (310 + i) + 30 * sin (real i * 0.15)) 150 600"
  by (simp add: Series_df locals_df locals_tds del: upt_rec_numeral upto_rec_numeral)

lemma Series_nth_Turbidity:
  "i < 310 \<Longrightarrow> Turbidity (Series G st ! i) =
      clip (2 + G 42 (620 + i) + 1.5 * sin (real i * 0.2)) 0.5 8"
  by (simp add: Series_df locals_df locals_turbidity del: upt_rec_numeral upto_rec_numeral)

lemma Series_nth_Dissolved_Oxygen:
  "i < 310 \<Longrightarrow> Dissolved_Oxygen (Series G st ! i) =
      clip (7 + 0.8 * G 42 (930 + i) - 0.5 * sin (real i * 0.12)) 4 9"
  by (simp add: Series_df locals_df locals_do del: upt_rec_numeral upto_rec_numeral)

lemma Series_nth_Quality_Score:
  "i < 310 \<Longrightarrow> Quality_Score (Series G st ! i) =
      ((100 - \<bar>7.5 - pH (Series G st ! i)\<bar> * 20)
       + clip (100 - (TDS (Series G st ! i) - 200) / 5) 0 100
       + clip (100 - Turbidity (Series G st ! i) * 15) 0 100
       + clip (Dissolved_Oxygen (Series G st ! i) * 12) 0 100) / 4"
  by (simp add: Series_df locals_df locals_quality_score locals_ph_score locals_tds_score
        locals_turbidity_score locals_do_score locals_ph locals_tds locals_turbidity locals_do
        del: upt_rec_numeral upto_rec_numeral)

lemma Series_Date: "map Date (Series G st) = map month_end [24000..24309]"
  by (rule nth_equalityI)
     (simp_all add: Series_length Series_nth_Date del: upt_rec_numeral upto_rec_numeral)

lemma clip_bounds: "lo \<le> hi \<Longrightarrow> lo \<le> clip x lo hi \<and> clip x lo hi \<le> hi"
  by (simp add: clip_def)

lemma Series_column_pH: "map pH (Series G st) = ph (generate_locals G st)"
  by (rule nth_equalityI)
     (simp_all add: Series_length Series_nth_pH locals_ph del: upt_rec_numeral)

lemma Series_column_TDS: "map TDS (Series G st) = tds (generate_locals G st)"
  by (rule nth_equalityI)
     (simp_all add: Series_length Series_nth_TDS locals_tds del: upt_rec_numeral)

lemma Series_column_Turbidity: "map Turbidity (Series G st) = turbidity (generate_locals G st)"
  by (rule nth_equalityI)
     (simp_all add: Series_length Series_nth_Turbidity locals_turbidity del: upt_rec_numeral)

lemma Series_column_Dissolved_Oxygen:
  "map Dissolved_Oxygen (Series G st) = do (generate_locals G st)"
  by (rule nth_equalityI)
     (simp_all add: Series_length Series_nth_Dissolved_Oxygen locals_do del: upt_rec_numeral)

lemma Series_row:
  assumes "r \<in> set (Series G st)"
  obtains i where "i < 310" "r = Series G st ! i"
  using assms by (auto simp: in_set_conv_nth Series_length)

lemma Series_first_row: "Series G st ! 0 \<in> set (Series G st)"
  by (rule nth_mem) (simp add: Series_length)

lemma mean4_le_100:
  fixes a b c d :: real
  assumes "a \<le> 100" "b \<le> 100" "c \<le> 100" "d \<le> 100"
  shows "(a + b + c + d) / 4 \<le> 100"
  using assms by simp

lemma mean4_negative:
  fixes a b c d :: real
  assumes "a = - 500" "b \<le> 100" "c \<le> 100" "d \<le> 100"
  shows "(a + b + c + d) / 4 < 0"
  using assms by simp

subsection \<open>The year filter\<close>

lemma filtered_df_filter:
  "filtered_df yr d =
     filter (\<lambda>r. fst yr \<le> year (Date r) \<and> year (Date r) \<le> snd yr) d"
  unfolding filtered_df_def boolean_index_def mask_def
  by (induction d) simp_all

lemma Series_years:
  assumes "r \<in> set (Series G st)"
  shows "2000 \<le> year (Date r) \<and> year (Date r) \<le> 2025"
proof -
  from assms obtain i where i: "i < 310" "r = Series G st ! i" by (rule Series_row)
  then have "year (Date r) = (24000 + int i) div 12"
    by (simp add: Series_nth_Date year_month_end)
  moreover have "2000 \<le> (24000 + int i) div 12" "(24000 + int i) div 12 \<le> 2025"
    using i(1) by linarith+
  ultimately show ?thesis by simp
qed

lemma Series_year_nth:
  "i < 310 \<Longrightarrow> year (Date (Series G st ! i)) = 2000 + int i div 12"
  by (simp add: Series_nth_Date year_month_end)

lemma sorted_Series_years: "sorted (map (\<lambda>r. year (Date r)) (Series G st))"
proof -
  have "map (\<lambda>r. year (Date r)) (Series G st) = map year (map Date (Series G st))"
    by simp
  also have "\<dots> = map (\<lambda>k. k div 12) [24000..24309]"
    by (simp add: Series_Date year_month_end del: upto_rec_numeral)
  finally have e: "map (\<lambda>r. year (Date r)) (Series G st) = map (\<lambda>k. k div 12) [24000..24309]" .
  have "sorted_wrt (\<lambda>x y. x div 12 \<le> y div (12::int)) [24000..24309]"
    by (rule sorted_wrt_mono_rel [of _ "(\<le>)"]) (simp_all add: zdiv_mono1 del: upto_rec_numeral)
  then show ?thesis
    unfolding e by (simp add: sorted_map del: upto_rec_numeral)
qed

lemma filter_sorted_above:
  assumes "sorted (map f xs)" "\<forall>x \<in> set xs. a \<le> f x"
  shows "filter (\<lambda>x. a \<le> f x \<and> f x \<le> b) xs = takeWhile (\<lambda>x. f x \<le> b) xs"
  using assms
proof (induction xs)
  case Nil
  then show ?case by simp
next
  case (Cons x xs)
  show ?case
  proof (cases "f x \<le> b")
    case True
    then show ?thesis using Cons by simp
  next
    case False
    then have "\<forall>y \<in> set xs. \<not> f y \<le> b" using Cons.prems(1) by fastforce
    then have "filter (\<lambda>x. a \<le> f x \<and> f x \<le> b) xs = []"
      by (simp add: filter_empty_conv)
    then show ?thesis using False by simp
  qed
qed

lemma filter_sorted_interval:
  fixes f :: "'a \<Rightarrow> int"
  assumes "sorted (map f xs)"
  shows "filter (\<lambda>x. a \<le> f x \<and> f x \<le> b) xs =
           takeWhile (\<lambda>x. f x \<le> b) (dropWhile (\<lambda>x. f x < a) xs)"
  using assms
proof (induction xs)
  case Nil
  then show ?case by simp
next
  case (Cons x xs)
  show ?case
  proof (cases "f x < a")
    case True
    then show ?thesis using Cons by simp
  next
    case False
    then have "\<forall>y \<in> set (x # xs). a \<le> f y" using Cons.prems by fastforce
    then have "filter (\<lambda>x. a \<le> f x \<and> f x \<le> b) (x # xs) = takeWhile (\<lambda>x. f x \<le> b) (x # xs)"
      using Cons.prems by (rule filter_sorted_above [rotated])
    then show ?thesis using False by simp
  qed
qed

lemma filter_sorted_contiguous:
  fixes f :: "'a \<Rightarrow> int"
  assumes "sorted (map f xs)"
  shows "\<exists>i j. filter (\<lambda>x. a \<le> f x \<and> f x \<le> b) xs = take j (drop i xs)"
proof -
  let ?ys = "dropWhile (\<lambda>x. f x < a) xs"
  have "filter (\<lambda>x. a \<le> f x \<and> f x \<le> b) xs = takeWhile (\<lambda>x. f x \<le> b) ?ys"
    using assms by (rule filter_sorted_interval)
  also have "\<dots> = take (length (takeWhile (\<lambda>x. f x \<le> b) ?ys)) ?ys"
    by (rule takeWhile_eq_take)
  also have "?ys = drop (length (takeWhile (\<lambda>x. f x < a) xs)) xs"
    by (rule dropWhile_eq_drop)
  finally show ?thesis by blast
qed

lemma filter_eq_take_drop:
  assumes "a \<le> b" "b \<le> length xs"
    and "\<And>i. i < length xs \<Longrightarrow> P (xs ! i) = (a \<le> i \<and> i < b)"
  shows "filter P xs = take (b - a) (drop a xs)"
proof -
  have xs: "xs = take a xs @ take (b - a) (drop a xs) @ drop b xs"
    using assms(1) by (metis append_take_drop_id drop_drop le_add_diff_inverse2)
  have 1: "filter P (take a xs) = []"
    using assms by (auto simp: filter_empty_conv in_set_conv_nth)
  have 2: "filter P (take (b - a) (drop a xs)) = take (b - a) (drop a xs)"
    using assms by (auto simp: filter_id_conv in_set_conv_nth)
  have 3: "filter P (drop b xs) = []"
    using assms by (auto simp: filter_empty_conv in_set_conv_nth)
  have "filter P xs = filter P (take a xs @ take (b - a) (drop a xs) @ drop b xs)"
    using xs by simp
  then show ?thesis
    by (simp only: filter_append 1 2 3 append_Nil append_Nil2)
qed

lemma year_2010_rows:
  assumes "i < 310"
  shows "(2010 \<le> 2000 + int i div 12 \<and> 2000 + int i div 12 \<le> 2010) = (120 \<le> i \<and> i < 132)"
proof -
  have "int i = 12 * (int i div 12) + int i mod 12" by simp
  moreover have "0 \<le> int i mod 12" "int i mod 12 < 12" by simp_all
  ultimately show ?thesis by linarith
qed

subsection \<open>The latest reading\<close>



lemma days_in_month_bounds: "28 \<le> days_in_month y m \<and> days_in_month y m \<le> 31"
  by (simp add: days_in_month_def)

lemma month_end_between_ends:
  assumes "24000 \<le> k" "k \<le> 24309"
  shows "ts_le \<lparr>year = 2000, month = 1, day = 31\<rparr> (month_end k) \<and>
         ts_le (month_end k) \<lparr>year = 2025, month = 10, day = 31\<rparr>"
proof -
  have k: "k = 12 * (k div 12) + k mod 12" by simp
  have y: "2000 \<le> k div 12" "k div 12 \<le> 2025" using assms by linarith+
  have m: "0 \<le> k mod 12" "k mod 12 < 12" by simp_all
  have m': "k div 12 = 2025 \<Longrightarrow> k mod 12 \<le> 9" using assms k by linarith
  have d: "days_in_month (k div 12) (k mod 12 + 1) \<le> 31"
    using days_in_month_bounds by simp
  have d': "k mod 12 = 0 \<Longrightarrow> days_in_month (k div 12) (k mod 12 + 1) = 31"
    by (simp add: days_in_month_def)
  show ?thesis
    using y m m' d d' unfolding ts_le_def month_end_def by (simp; linarith)
qed

lemma month_ends_between_ends:
  "date_range \<lparr>year = 2000, month = 1, day = 31\<rparr> \<lparr>year = 2025, month = 10, day = 31\<rparr>
     = map month_end [24000..24309]"
proof -
  have "date_range \<lparr>year = 2000, month = 1, day = 31\<rparr> \<lparr>year = 2025, month = 10, day = 31\<rparr>
     = filter (\<lambda>d. ts_le \<lparr>year = 2000, month = 1, day = 31\<rparr> d \<and>
                ts_le d \<lparr>year = 2025, month = 10, day = 31\<rparr>) (map month_end [24000..24309])"
    by (simp add: date_range_def month_no_def del: upto_rec_numeral)
  also have "\<dots> = map month_end [24000..24309]"
    by (rule filter_map_upto_all) (rule month_end_between_ends)
  finally show ?thesis .
qed

section \<open>The claims\<close>

text \<open>
  C1, as the code has it: the Series has 310 rows, not 311. Its dates are the month-end
  dates from 2000-01-31 to 2025-10-31, both included: row \<open>i\<close> is dated at the end of the
  \<open>i\<close>-th month after January 2000 (the end of November 2025 lies after the end date
  2025-11-03).
\<close>

theorem Series_has_310_samples:
  "length (Series G st) = 310
   \<and> map Date (Series G st) =
       date_range \<lparr>year = 2000, month = 1, day = 31\<rparr> \<lparr>year = 2025, month = 10, day = 31\<rparr>
   \<and> map Date (Series G st) = map month_end [24000..24309]
   \<and> month_end 24000 = \<lparr>year = 2000, month = 1, day = 31\<rparr>
   \<and> month_end 24309 = \<lparr>year = 2025, month = 10, day = 31\<rparr>"
  by (simp add: Series_length Series_Date month_ends_between_ends month_end_def
        days_in_month_def del: upto_rec_numeral)

text \<open>C1 as stated fails: the length of the Series is not 311.\<close>

theorem Series_length_not_311: "length (Series no_noise initial_state) \<noteq> 311"
  by (simp add: Series_length)

text \<open>
  C7: the pH label is "Optimal" exactly for 6.5 \<open>\<le>\<close> ph \<open>\<le>\<close> 8.5, both ends included
  (8.5 is "Optimal", 8.50001 is "Outside Range"); the quality label is "Excellent" exactly
  above 80, "Good" exactly for 60 < score \<open>\<le>\<close> 80 (so 80 is "Good"), and "Fair" otherwise.
\<close>

theorem classification_boundaries:
  "(ph_delta p = ''Optimal'' \<longleftrightarrow> 6.5 \<le> p \<and> p \<le> 8.5)
   \<and> (ph_delta p = ''Outside Range'' \<longleftrightarrow> \<not> (6.5 \<le> p \<and> p \<le> 8.5))
   \<and> ph_delta 8.5 = ''Optimal'' \<and> ph_delta 8.50001 = ''Outside Range''
   \<and> (status q = ''Excellent'' \<longleftrightarrow> q > 80)
   \<and> (status q = ''Good'' \<longleftrightarrow> 60 < q \<and> q \<le> 80)
   \<and> (status q = ''Fair'' \<longleftrightarrow> q \<le> 60)
   \<and> status 80 = ''Good'' \<and> status 80.1 = ''Excellent''"
  by (simp add: ph_delta_def status_def)

text \<open>
  C4: in every row of the Series the TDS value lies in [150, 600], the turbidity in
  [0.5, 8] and the dissolved oxygen in [4, 9], whatever the random draws are. pH has no
  such bound: for every bound there is a stream of draws that takes a pH above it, and
  one that takes a pH below it.
\<close>

theorem raw_values_in_clamp_ranges:
  "(\<forall>r \<in> set (Series G st).
       150 \<le> TDS r \<and> TDS r \<le> 600 \<and> 0.5 \<le> Turbidity r \<and> Turbidity r \<le> 8
       \<and> 4 \<le> Dissolved_Oxygen r \<and> Dissolved_Oxygen r \<le> 9)
   \<and> (\<forall>B. \<exists>G'. \<exists>r \<in> set (Series G' st). B < pH r)
   \<and> (\<forall>B. \<exists>G'. \<exists>r \<in> set (Series G' st). pH r < B)"
proof (intro conjI ballI allI)
  fix r assume "r \<in> set (Series G st)"
  then obtain i where i: "i < 310" "r = Series G st ! i" by (rule Series_row)
  show "150 \<le> TDS r" "TDS r \<le> 600"
    using i clip_bounds [of 150 600] by (simp_all add: Series_nth_TDS)
  show "0.5 \<le> Turbidity r" "Turbidity r \<le> 8"
    using i clip_bounds [of "0.5" 8] by (simp_all add: Series_nth_Turbidity)
  show "4 \<le> Dissolved_Oxygen r" "Dissolved_Oxygen r \<le> 9"
    using i clip_bounds [of 4 9] by (simp_all add: Series_nth_Dissolved_Oxygen)
next
  fix B :: real
  define c :: real where "c = (B + 1) / 0.3"
  have "0.3 * c = B + 1" by (simp add: c_def)
  moreover have "pH (Series (\<lambda>k i. c) st ! 0) = 7.5 + 0.3 * c"
    by (simp add: Series_nth_pH)
  ultimately have "B < pH (Series (\<lambda>k i. c) st ! 0)"
    by linarith
  then show "\<exists>G'. \<exists>r \<in> set (Series G' st). B < pH r"
    using Series_first_row [of "\<lambda>k i. c" st] by blast
next
  fix B :: real
  define c :: real where "c = (B - 10) / 0.3"
  have "0.3 * c = B - 10" by (simp add: c_def)
  moreover have "pH (Series (\<lambda>k i. c) st ! 0) = 7.5 + 0.3 * c"
    by (simp add: Series_nth_pH)
  ultimately have "pH (Series (\<lambda>k i. c) st ! 0) < B"
    by linarith
  then show "\<exists>G'. \<exists>r \<in> set (Series G' st). pH r < B"
    using Series_first_row [of "\<lambda>k i. c" st] by blast
qed

text \<open>The first row of the Series generated without noise: TDS 250, turbidity 2, oxygen 7.\<close>

theorem raw_values_in_clamp_ranges_witness:
  "Series no_noise initial_state ! 0 \<in> set (Series no_noise initial_state)
   \<and> TDS (Series no_noise initial_state ! 0) = 250
   \<and> Turbidity (Series no_noise initial_state ! 0) = 2
   \<and> Dissolved_Oxygen (Series no_noise initial_state ! 0) = 7
   \<and> 150 \<le> TDS (Series no_noise initial_state ! 0)
   \<and> TDS (Series no_noise initial_state ! 0) \<le> 600
   \<and> 0.5 \<le> Turbidity (Series no_noise initial_state ! 0)
   \<and> Turbidity (Series no_noise initial_state ! 0) \<le> 8
   \<and> 4 \<le> Dissolved_Oxygen (Series no_noise initial_state ! 0)
   \<and> Dissolved_Oxygen (Series no_noise initial_state ! 0) \<le> 9"
proof -
  have v: "TDS (Series no_noise initial_state ! 0) = 250"
    "Turbidity (Series no_noise initial_state ! 0) = 2"
    "Dissolved_Oxygen (Series no_noise initial_state ! 0) = 7"
    by (simp_all add: Series_nth_TDS Series_nth_Turbidity Series_nth_Dissolved_Oxygen
          no_noise_def clip_def)
  show ?thesis
    using raw_values_in_clamp_ranges [of no_noise initial_state]
      Series_first_row [of no_noise initial_state] v
    by blast
qed

text \<open>
  C5: the TDS, turbidity and dissolved-oxygen sub-scores of every row lie in [0, 100]; each
  is the clipped formula over the row's stored value (\<open>clip (100 - (tds - 200) / 5) 0 100\<close>,
  \<open>clip (100 - turbidity * 15) 0 100\<close>, \<open>clip (do * 12) 0 100\<close>). The pH sub-score is
  \<open>100 - |7.5 - ph| * 20\<close> with no clip, and some stream of draws makes it negative.
\<close>

theorem sub_scores_in_0_100:
  "(\<forall>x \<in> set (tds_score (generate_locals G st)). 0 \<le> x \<and> x \<le> 100)
   \<and> (\<forall>x \<in> set (turbidity_score (generate_locals G st)). 0 \<le> x \<and> x \<le> 100)
   \<and> (\<forall>x \<in> set (do_score (generate_locals G st)). 0 \<le> x \<and> x \<le> 100)
   \<and> tds_score (generate_locals G st) =
         map (\<lambda>t. clip (100 - (t - 200) / 5) 0 100) (map TDS (Series G st))
   \<and> turbidity_score (generate_locals G st) =
         map (\<lambda>t. clip (100 - t * 15) 0 100) (map Turbidity (Series G st))
   \<and> do_score (generate_locals G st) =
         map (\<lambda>d. clip (d * 12) 0 100) (map Dissolved_Oxygen (Series G st))
   \<and> ph_score (generate_locals G st) =
         map (\<lambda>p. 100 - \<bar>7.5 - p\<bar> * 20) (map pH (Series G st))
   \<and> (\<exists>G'. \<exists>x \<in> set (ph_score (generate_locals G' st)). x < 0)"
proof (intro conjI ballI)
  fix x assume "x \<in> set (tds_score (generate_locals G st))"
  then obtain v where "x = clip v 0 100"
    by (auto simp: locals_tds_score)
  then show "0 \<le> x" "x \<le> 100"
    using clip_bounds [of 0 100 v] by simp_all
next
  fix x assume "x \<in> set (turbidity_score (generate_locals G st))"
  then obtain v where "x = clip v 0 100"
    by (auto simp: locals_turbidity_score)
  then show "0 \<le> x" "x \<le> 100"
    using clip_bounds [of 0 100 v] by simp_all
next
  fix x assume "x \<in> set (do_score (generate_locals G st))"
  then obtain v where "x = clip v 0 100"
    by (auto simp: locals_do_score)
  then show "0 \<le> x" "x \<le> 100"
    using clip_bounds [of 0 100 v] by simp_all
next
  show "tds_score (generate_locals G st) =
         map (\<lambda>t. clip (100 - (t - 200) / 5) 0 100) (map TDS (Series G st))"
    by (simp only: Series_column_TDS locals_tds_score)
  show "turbidity_score (generate_locals G st) =
         map (\<lambda>t. clip (100 - t * 15) 0 100) (map Turbidity (Series G st))"
    by (simp only: Series_column_Turbidity locals_turbidity_score)
  show "do_score (generate_locals G st) =
         map (\<lambda>d. clip (d * 12) 0 100) (map Dissolved_Oxygen (Series G st))"
    by (simp only: Series_column_Dissolved_Oxygen locals_do_score)
  show "ph_score (generate_locals G st) =
         map (\<lambda>p. 100 - \<bar>7.5 - p\<bar> * 20) (map pH (Series G st))"
    by (simp only: Series_column_pH locals_ph_score)
next
  have "ph_score (generate_locals (\<lambda>k i. 100) st) ! 0 = - 500"
    by (simp add: locals_ph_score locals_ph del: upt_rec_numeral)
  moreover have "ph_score (generate_locals (\<lambda>k i. 100) st) ! 0
      \<in> set (ph_score (generate_locals (\<lambda>k i. 100) st))"
    by (rule nth_mem) (simp add: locals_ph_score locals_ph del: upt_rec_numeral)
  ultimately show "\<exists>G'. \<exists>x \<in> set (ph_score (generate_locals G' st)). x < 0"
    by (metis neg_less_0_iff_less zero_less_numeral)
qed

text \<open>The sub-scores of the first row generated without noise are 90, 70 and 84.\<close>

theorem sub_scores_in_0_100_witness:
  "tds_score (generate_locals no_noise initial_state) ! 0 = 90
   \<and> turbidity_score (generate_locals no_noise initial_state) ! 0 = 70
   \<and> do_score (generate_locals no_noise initial_state) ! 0 = 84
   \<and> 90 \<in> set (tds_score (generate_locals no_noise initial_state))
   \<and> 70 \<in> set (turbidity_score (generate_locals no_noise initial_state))
   \<and> 84 \<in> set (do_score (generate_locals no_noise initial_state))
   \<and> (0::real) \<le> 90 \<and> (90::real) \<le> 100 \<and> (0::real) \<le> 70 \<and> (70::real) \<le> 100
   \<and> (0::real) \<le> 84 \<and> (84::real) \<le> 100"
proof -
  let ?L = "generate_locals no_noise initial_state"
  have v: "tds_score ?L ! 0 = 90" "turbidity_score ?L ! 0 = 70" "do_score ?L ! 0 = 84"
    by (simp_all add: locals_tds_score locals_tds locals_turbidity_score locals_turbidity
          locals_do_score locals_do no_noise_def clip_def del: upt_rec_numeral)
  have "tds_score ?L ! 0 \<in> set (tds_score ?L)" "turbidity_score ?L ! 0 \<in> set (turbidity_score ?L)"
    "do_score ?L ! 0 \<in> set (do_score ?L)"
    by (rule nth_mem, simp add: locals_tds_score locals_tds locals_turbidity_score
          locals_turbidity locals_do_score locals_do del: upt_rec_numeral)+
  then have m: "90 \<in> set (tds_score ?L)" "70 \<in> set (turbidity_score ?L)" "84 \<in> set (do_score ?L)"
    using v by simp_all
  show ?thesis
    using sub_scores_in_0_100 [of no_noise initial_state] v m by blast
qed

text \<open>
  C6: the quality score of row \<open>i\<close> is the sum of the four sub-scores of that row divided
  by 4; the TDS, turbidity and oxygen sub-scores are each clipped to [0, 100] and the pH
  sub-score is not clipped.
\<close>

theorem quality_score_is_mean:
  assumes "i < length (Series G st)"
  shows "Quality_Score (Series G st ! i) =
           (ph_score (generate_locals G st) ! i + tds_score (generate_locals G st) ! i
            + turbidity_score (generate_locals G st) ! i + do_score (generate_locals G st) ! i) / 4
         \<and> ph_score (generate_locals G st) ! i = 100 - \<bar>7.5 - pH (Series G st ! i)\<bar> * 20
         \<and> tds_score (generate_locals G st) ! i = clip (100 - (TDS (Series G st ! i) - 200) / 5) 0 100
         \<and> turbidity_score (generate_locals G st) ! i = clip (100 - Turbidity (Series G st ! i) * 15) 0 100
         \<and> do_score (generate_locals G st) ! i = clip (Dissolved_Oxygen (Series G st ! i) * 12) 0 100
         \<and> 0 \<le> tds_score (generate_locals G st) ! i \<and> tds_score (generate_locals G st) ! i \<le> 100
         \<and> 0 \<le> turbidity_score (generate_locals G st) ! i
         \<and> turbidity_score (generate_locals G st) ! i \<le> 100
         \<and> 0 \<le> do_score (generate_locals G st) ! i \<and> do_score (generate_locals G st) ! i \<le> 100"
proof -
  have i: "i < 310" using assms by (simp add: Series_length)
  have p: "ph_score (generate_locals G st) ! i = 100 - \<bar>7.5 - pH (Series G st ! i)\<bar> * 20"
    using i by (simp add: locals_ph_score locals_ph Series_nth_pH del: upt_rec_numeral)
  have t: "tds_score (generate_locals G st) ! i = clip (100 - (TDS (Series G st ! i) - 200) / 5) 0 100"
    using i by (simp add: locals_tds_score locals_tds Series_nth_TDS del: upt_rec_numeral)
  have u: "turbidity_score (generate_locals G st) ! i = clip (100 - Turbidity (Series G st ! i) * 15) 0 100"
    using i by (simp add: locals_turbidity_score locals_turbidity Series_nth_Turbidity del: upt_rec_numeral)
  have d: "do_score (generate_locals G st) ! i = clip (Dissolved_Oxygen (Series G st ! i) * 12) 0 100"
    using i by (simp add: locals_do_score locals_do Series_nth_Dissolved_Oxygen del: upt_rec_numeral)
  have q: "Quality_Score (Series G st ! i) =
           (ph_score (generate_locals G st) ! i + tds_score (generate_locals G st) ! i
            + turbidity_score (generate_locals G st) ! i + do_score (generate_locals G st) ! i) / 4"
    using i by (simp only: Series_nth_Quality_Score p t u d)
  show ?thesis
    using p t u d q clip_bounds [of 0 100] by simp
qed

text \<open>The first row generated without noise has quality score (100 + 90 + 70 + 84) / 4.\<close>

theorem quality_score_is_mean_witness:
  "0 < length (Series no_noise initial_state)
   \<and> Quality_Score (Series no_noise initial_state ! 0) = (100 + 90 + 70 + 84) / 4
   \<and> ph_score (generate_locals no_noise initial_state) ! 0 = 100
   \<and> tds_score (generate_locals no_noise initial_state) ! 0 = 90
   \<and> turbidity_score (generate_locals no_noise initial_state) ! 0 = 70
   \<and> do_score (generate_locals no_noise initial_state) ! 0 = 84"
proof -
  let ?L = "generate_locals no_noise initial_state"
  have l: "0 < length (Series no_noise initial_state)" by (simp add: Series_length)
  have v: "ph_score ?L ! 0 = 100" "tds_score ?L ! 0 = 90" "turbidity_score ?L ! 0 = 70"
    "do_score ?L ! 0 = 84"
    by (simp_all add: locals_ph_score locals_ph locals_tds_score locals_tds
          locals_turbidity_score locals_turbidity
          locals_do_score locals_do no_noise_def clip_def del: upt_rec_numeral)
  show ?thesis
    using quality_score_is_mean [OF l] l v by simp
qed

text \<open>
  C10: the quality score of every row is at most 100, whatever the random draws are: the
  pH sub-score is 100 minus a non-negative number and the other three are clipped to at
  most 100. Nothing bounds it below by 0: some stream of draws gives a negative score.
\<close>

theorem quality_score_at_most_100:
  "(\<forall>r \<in> set (Series G st). Quality_Score r \<le> 100)
   \<and> (\<exists>G'. \<exists>r \<in> set (Series G' st). Quality_Score r < 0)"
proof (intro conjI ballI)
  fix r assume "r \<in> set (Series G st)"
  then obtain i where i: "i < 310" "r = Series G st ! i" by (rule Series_row)
  have "100 - \<bar>7.5 - pH r\<bar> * 20 \<le> 100" by simp
  moreover have "clip (100 - (TDS r - 200) / 5) 0 100 \<le> 100"
    "clip (100 - Turbidity r * 15) 0 100 \<le> 100"
    "clip (Dissolved_Oxygen r * 12) 0 100 \<le> 100"
    using clip_bounds [of 0 100] by simp_all
  ultimately have "((100 - \<bar>7.5 - pH r\<bar> * 20) + clip (100 - (TDS r - 200) / 5) 0 100
       + clip (100 - Turbidity r * 15) 0 100 + clip (Dissolved_Oxygen r * 12) 0 100) / 4 \<le> 100"
    by (rule mean4_le_100)
  then show "Quality_Score r \<le> 100"
    using i by (simp only: Series_nth_Quality_Score)
next
  let ?r = "Series (\<lambda>k i. 100) st ! 0"
  have "pH ?r = 37.5" by (simp add: Series_nth_pH)
  then have "100 - \<bar>7.5 - pH ?r\<bar> * 20 = - 500" by simp
  moreover have "clip (100 - (TDS ?r - 200) / 5) 0 100 \<le> 100"
    "clip (100 - Turbidity ?r * 15) 0 100 \<le> 100"
    "clip (Dissolved_Oxygen ?r * 12) 0 100 \<le> 100"
    using clip_bounds [of 0 100] by simp_all
  ultimately have "((100 - \<bar>7.5 - pH ?r\<bar> * 20) + clip (100 - (TDS ?r - 200) / 5) 0 100
       + clip (100 - Turbidity ?r * 15) 0 100 + clip (Dissolved_Oxygen ?r * 12) 0 100) / 4 < 0"
    by (rule mean4_negative)
  moreover have "Quality_Score ?r =
      ((100 - \<bar>7.5 - pH ?r\<bar> * 20) + clip (100 - (TDS ?r - 200) / 5) 0 100
       + clip (100 - Turbidity ?r * 15) 0 100 + clip (Dissolved_Oxygen ?r * 12) 0 100) / 4"
    by (rule Series_nth_Quality_Score) simp
  ultimately have "Quality_Score ?r < 0" by (simp only:)
  then show "\<exists>G'. \<exists>r \<in> set (Series G' st). Quality_Score r < 0"
    using Series_first_row [of "\<lambda>k i. 100" st] by blast
qed

text \<open>The first row generated without noise has quality score 86.\<close>

theorem quality_score_at_most_100_witness:
  "Series no_noise initial_state ! 0 \<in> set (Series no_noise initial_state)
   \<and> Quality_Score (Series no_noise initial_state ! 0) = 86
   \<and> Quality_Score (Series no_noise initial_state ! 0) \<le> 100"
proof -
  let ?r = "Series no_noise initial_state ! 0"
  have "Quality_Score ?r = 86"
    by (simp add: Series_nth_Quality_Score Series_nth_pH Series_nth_TDS Series_nth_Turbidity
          Series_nth_Dissolved_Oxygen no_noise_def clip_def)
  then show ?thesis
    using quality_score_at_most_100 [of no_noise initial_state]
      Series_first_row [of no_noise initial_state]
    by blast
qed

text \<open>
  C8: the generator seeds the random state itself, so its result (the Series and the
  state it leaves) does not depend on the state it starts from. With \<open>n\<close> the number of
  rows, row \<open>i\<close> takes draw \<open>i\<close> for pH, draw \<open>n + i\<close> for TDS, draw \<open>2n + i\<close> for
  turbidity and draw \<open>3n + i\<close> for dissolved oxygen, and \<open>4n\<close> draws are consumed.
\<close>

theorem generator_deterministic_draw_order:
  "generate_water_quality_data G st = generate_water_quality_data G st'
   \<and> (\<forall>i < length (Series G st).
         pH (Series G st ! i) = 7.5 + (0 + 0.3 * G 42 i) + 0.2 * sin (real i * 0.1)
       \<and> TDS (Series G st ! i) =
           clip (250 + (0 + 50 * G 42 (length (Series G st) + i)) + 30 * sin (real i * 0.15)) 150 600
       \<and> Turbidity (Series G st ! i) =
           clip (2 + (0 + 1 * G 42 (2 * length (Series G st) + i)) + 1.5 * sin (real i * 0.2)) 0.5 8
       \<and> Dissolved_Oxygen (Series G st ! i) =
           clip (7 + (0 + 0.8 * G 42 (3 * length (Series G st) + i)) - 0.5 * sin (real i * 0.12)) 4 9)
   \<and> snd (generate_water_quality_data G st) =
       \<lparr>gauss_stream = G 42, pos = 4 * length (Series G st)\<rparr>"
proof (intro conjI allI impI)
  have "df (generate_locals G st) = df (generate_locals G st')"
    by (simp add: locals_df locals_dates locals_ph locals_tds locals_turbidity locals_do
          locals_quality_score locals_ph_score locals_tds_score locals_turbidity_score
          locals_do_score del: upt_rec_numeral upto_rec_numeral)
  then show "generate_water_quality_data G st = generate_water_quality_data G st'"
    by (simp add: generate_water_quality_data_def locals_rng)
next
  show "snd (generate_water_quality_data G st) =
       \<lparr>gauss_stream = G 42, pos = 4 * length (Series G st)\<rparr>"
    by (simp add: generate_water_quality_data_def locals_rng Series_length)
next
  fix i assume "i < length (Series G st)"
  then have i: "i < 310" by (simp add: Series_length)
  show "pH (Series G st ! i) = 7.5 + (0 + 0.3 * G 42 i) + 0.2 * sin (real i * 0.1)"
    using i by (simp add: Series_nth_pH)
  show "TDS (Series G st ! i) =
           clip (250 + (0 + 50 * G 42 (length (Series G st) + i)) + 30 * sin (real i * 0.15)) 150 600"
    using i by (simp add: Series_nth_TDS Series_length)
  show "Turbidity (Series G st ! i) =
           clip (2 + (0 + 1 * G 42 (2 * length (Series G st) + i)) + 1.5 * sin (real i * 0.2)) 0.5 8"
    using i by (simp add: Series_nth_Turbidity Series_length)
  show "Dissolved_Oxygen (Series G st ! i) =
           clip (7 + (0 + 0.8 * G 42 (3 * length (Series G st) + i)) - 0.5 * sin (real i * 0.12)) 4 9"
    using i by (simp add: Series_nth_Dissolved_Oxygen Series_length)
qed

text \<open>
  The run without noise, started from two different states: the same result; the first
  row has pH 7.5, TDS 250, turbidity 2 and oxygen 7, and 1240 draws are consumed.
\<close>

theorem generator_deterministic_draw_order_witness:
  "0 < length (Series no_noise initial_state)
   \<and> generate_water_quality_data no_noise initial_state =
       generate_water_quality_data no_noise \<lparr>gauss_stream = no_noise 7, pos = 5\<rparr>
   \<and> pH (Series no_noise initial_state ! 0) = 7.5
   \<and> TDS (Series no_noise initial_state ! 0) = 250
   \<and> Turbidity (Series no_noise initial_state ! 0) = 2
   \<and> Dissolved_Oxygen (Series no_noise initial_state ! 0) = 7
   \<and> pos (snd (generate_water_quality_data no_noise initial_state)) = 1240"
proof -
  let ?S = "Series no_noise initial_state"
  have l: "0 < length ?S" by (simp add: Series_length)
  note t = generator_deterministic_draw_order
             [of no_noise initial_state "\<lparr>gauss_stream = no_noise 7, pos = 5\<rparr>"]
  from t have det: "generate_water_quality_data no_noise initial_state =
       generate_water_quality_data no_noise \<lparr>gauss_stream = no_noise 7, pos = 5\<rparr>"
    by (rule conjunct1)
  from t l have row:
    "pH (?S ! 0) = 7.5 + (0 + 0.3 * no_noise 42 0) + 0.2 * sin (real 0 * 0.1)
     \<and> TDS (?S ! 0) =
           clip (250 + (0 + 50 * no_noise 42 (length ?S + 0)) + 30 * sin (real 0 * 0.15)) 150 600
     \<and> Turbidity (?S ! 0) =
           clip (2 + (0 + 1 * no_noise 42 (2 * length ?S + 0)) + 1.5 * sin (real 0 * 0.2)) 0.5 8
     \<and> Dissolved_Oxygen (?S ! 0) =
           clip (7 + (0 + 0.8 * no_noise 42 (3 * length ?S + 0)) - 0.5 * sin (real 0 * 0.12)) 4 9"
    by blast
  from t have "snd (generate_water_quality_data no_noise initial_state) =
       \<lparr>gauss_stream = no_noise 42, pos = 4 * length ?S\<rparr>"
    by blast
  then have p: "pos (snd (generate_water_quality_data no_noise initial_state)) = 1240"
    by (simp add: Series_length)
  show ?thesis
    using l det row p by (simp add: no_noise_def clip_def)
qed

text \<open>
  C3: for every pair (start, end) the filter returns exactly the rows whose year lies
  between start and end, both included, in their order; on the Series they are one
  contiguous block of rows. The range (2000, 2025) returns the whole Series, and
  (2010, 2010) returns exactly the rows dated in 2010: the 12 rows from position 120 on.
\<close>

theorem filtered_df_year_range:
  "filtered_df (s, e) d = filter (\<lambda>r. s \<le> year (Date r) \<and> year (Date r) \<le> e) d
   \<and> subseq (filtered_df (s, e) d) d
   \<and> (\<exists>i j. filtered_df (s, e) (Series G st) = take j (drop i (Series G st)))
   \<and> filtered_df (2000, 2025) (Series G st) = Series G st
   \<and> filtered_df (2010, 2010) (Series G st) = take 12 (drop 120 (Series G st))
   \<and> filtered_df (2010, 2010) (Series G st) =
        filter (\<lambda>r. year (Date r) = 2010) (Series G st)
   \<and> length (filtered_df (2010, 2010) (Series G st)) = 12"
proof (intro conjI)
  show f: "filtered_df (s, e) d = filter (\<lambda>r. s \<le> year (Date r) \<and> year (Date r) \<le> e) d"
    by (simp add: filtered_df_filter)
  show "subseq (filtered_df (s, e) d) d"
    unfolding f by (rule subseq_filter_left)
  show "\<exists>i j. filtered_df (s, e) (Series G st) = take j (drop i (Series G st))"
    using filter_sorted_contiguous [OF sorted_Series_years, of s e G st]
    by (simp add: filtered_df_filter)
  show "filtered_df (2000, 2025) (Series G st) = Series G st"
    using Series_years [of _ G st] by (simp add: filtered_df_filter filter_id_conv)
  have "filter (\<lambda>r. 2010 \<le> year (Date r) \<and> year (Date r) \<le> 2010) (Series G st) =
          take (132 - 120) (drop 120 (Series G st))"
  proof (rule filter_eq_take_drop)
    show "(120::nat) \<le> 132" by simp
    show "132 \<le> length (Series G st)" by (simp add: Series_length)
    fix i assume "i < length (Series G st)"
    then have i: "i < 310" by (simp add: Series_length)
    show "(2010 \<le> year (Date (Series G st ! i)) \<and> year (Date (Series G st ! i)) \<le> 2010) =
            (120 \<le> i \<and> i < 132)"
      using year_2010_rows [OF i] by (simp only: Series_year_nth [OF i])
  qed
  then show t: "filtered_df (2010, 2010) (Series G st) = take 12 (drop 120 (Series G st))"
    by (simp add: filtered_df_filter)
  show "filtered_df (2010, 2010) (Series G st) =
        filter (\<lambda>r. year (Date r) = 2010) (Series G st)"
    unfolding filtered_df_filter by (rule filter_cong) auto
  show "length (filtered_df (2010, 2010) (Series G st)) = 12"
    unfolding t by (simp add: Series_length)
qed







end
